theory Spec2Isabelle
  imports Main "HOL-Library.Word" "HOL-Library.List_Lexorder" "HOL-Library.Char_ord"
begin

section \<open>Data model of \<^verbatim>\<open>src/qt/transactionrecord.cpp\<close>\<close>

text \<open>
  The file defines four member functions of \<^verbatim>\<open>TransactionRecord\<close>:
  \<^verbatim>\<open>showTransaction\<close>, \<^verbatim>\<open>decomposeTransaction\<close>, \<^verbatim>\<open>updateStatus\<close> and two small
  accessors. The wallet, the transaction and the chain are collaborators that the file
  only queries; they appear here as records holding the answers to those queries.

  Amounts are \<^verbatim>\<open>int64\<close> in the source and 64-bit words here: \<open>+\<close> and \<open>-\<close> wrap,
  and the comparisons of the source are the signed ones (\<open><s\<close>).
\<close>

type_synonym uint256 = "256 word"
type_synonym int64 = "64 word"
type_synonym CScript = "8 word list"

text \<open>A \<^verbatim>\<open>CBitcoinAddress\<close> is identified with its base58 text.\<close>

datatype CBitcoinAddress = CBitcoinAddress string

fun ToString :: "CBitcoinAddress \<Rightarrow> string" where
  "ToString (CBitcoinAddress s) = s"

record CTxOut =
  nValue :: int64
  scriptPubKey :: CScript

record CTxIn =
  prevout_hash :: uint256
  prevout_n :: "32 word"

text \<open>
  The wallet as \<^verbatim>\<open>decomposeTransaction\<close> sees it: the two overloads of
  \<^verbatim>\<open>IsMine\<close> and \<^verbatim>\<open>HaveKey\<close>.
\<close>

record CWallet =
  IsMineIn :: "CTxIn \<Rightarrow> bool"
  IsMineOut :: "CTxOut \<Rightarrow> bool"
  HaveKey :: "CBitcoinAddress \<Rightarrow> bool"

text \<open>
  A wallet transaction: the members the file reads (\<^verbatim>\<open>vin\<close>, \<^verbatim>\<open>vout\<close>,
  \<^verbatim>\<open>mapValue\<close>, \<^verbatim>\<open>nTimeReceived\<close>, \<^verbatim>\<open>nLockTime\<close>, \<^verbatim>\<open>hashBlock\<close>) and the
  result of each method it calls, at the moment of the call. \<^verbatim>\<open>nTimeReceived\<close> is
  printed with \<^verbatim>\<open>%u\<close>, an unsigned 32-bit value, and \<^verbatim>\<open>nLockTime\<close> is an
  \<^verbatim>\<open>unsigned int\<close> as well: arithmetic on it is modulo \<open>2 ^ 32\<close> and comparisons
  are unsigned. The depth, the request count and the maturity count are only stored and
  compared; they are integers here.
\<close>

record CWalletTx =
  vin :: "CTxIn list"
  vout :: "CTxOut list"
  mapValue :: "string \<rightharpoonup> string"
  nTimeReceived :: "32 word"
  nLockTime :: "32 word"
  hashBlock :: uint256
  IsCoinBase :: bool
  IsCoinStake :: bool
  GetDepthInMainChain :: int
  GetTxTime :: int64
  GetCredit :: "bool \<Rightarrow> int64"
  GetDebit :: int64
  GetChange :: int64
  GetValueOut :: int64
  GetHash :: uint256
  IsConfirmed :: bool
  IsFinal :: bool
  GetRequestCount :: int
  IsInMainChain :: bool
  GetBlocksToMaturity :: int

datatype Type =
  Other | Generated | StakeMint | SendToAddress | SendToOther
  | RecvWithAddress | RecvFromOther | SendToSelf

datatype Status = OpenUntilDate | OpenUntilBlock | Offline | Unconfirmed | HaveConfirmations

text \<open>
  Modelled from the spec: the enumeration \<^verbatim>\<open>TransactionStatus::Maturity\<close> is declared
  in \<^verbatim>\<open>transactionrecord.h\<close>, which is not among the sources. The spec lists its
  values as NotApplicable, Immature, MaturesWarning, NotAccepted, Mature.
\<close>

datatype Maturity = NotApplicable | Immature | MaturesWarning | NotAccepted | Mature

text \<open>
  The status snapshot. The member \<^verbatim>\<open>status\<close> of \<^verbatim>\<open>TransactionStatus\<close> is
  \<open>status'\<close> here, since \<^verbatim>\<open>TransactionRecord\<close> has a member of the same name.
  \<^verbatim>\<open>open_for\<close> is a 64-bit member, wide enough for every value of an
  \<^verbatim>\<open>unsigned int\<close>; \<^verbatim>\<open>cur_num_blocks\<close> is an \<^verbatim>\<open>int\<close> like the height it copies.
\<close>

record TransactionStatus =
  confirmed :: bool
  sortKey :: string
  maturity :: Maturity
  matures_in :: int
  status' :: Status
  depth :: int
  open_for :: int64
  cur_num_blocks :: "32 word"

text \<open>
  \<^verbatim>\<open>idx\<close> is an \<^verbatim>\<open>int\<close> that only ever receives \<^verbatim>\<open>parts.size()\<close>, itself an
  \<^verbatim>\<open>int\<close>: the list cannot be longer than that type allows, so the index is the
  mathematical length.
\<close>

record TransactionRecord =
  hash :: uint256
  time :: int64
  type :: Type
  address :: string
  debit :: int64
  credit :: int64
  idx :: int
  status :: TransactionStatus

text \<open>
  Modelled from the spec: the two constructors used by \<^verbatim>\<open>decomposeTransaction\<close> are
  declared in \<^verbatim>\<open>transactionrecord.h\<close>, which is not among the sources. By the spec a
  record carries the hash and time of its transaction, an empty counterparty label and
  zero amounts unless given, and indices are 0-based, so a record built alone has
  index 0. The type given by the two-argument constructor is overwritten on every path
  that uses it. The default-constructed status snapshot \<open>st\<close> is a parameter: the
  spec fixes none of its fields.
\<close>

definition TransactionRecord2 :: "TransactionStatus \<Rightarrow> uint256 \<Rightarrow> int64 \<Rightarrow> TransactionRecord" where
  "TransactionRecord2 st h t =
     \<lparr>hash = h, time = t, type = Other, address = [], debit = 0, credit = 0, idx = 0,
      status = st\<rparr>"

definition TransactionRecord6 ::
  "TransactionStatus \<Rightarrow> uint256 \<Rightarrow> int64 \<Rightarrow> Type \<Rightarrow> string \<Rightarrow> int64 \<Rightarrow> int64 \<Rightarrow> TransactionRecord" where
  "TransactionRecord6 st h t ty a d c =
     \<lparr>hash = h, time = t, type = ty, address = a, debit = d, credit = c, idx = 0,
      status = st\<rparr>"

text \<open>
  \<^verbatim>\<open>mapValue["from"]\<close> on the local copy of the map: the stored string, or the empty
  string (which \<^verbatim>\<open>operator[]\<close> then inserts into the copy, where nothing reads it
  under another key).
\<close>

definition mapValue_at :: "(string \<rightharpoonup> string) \<Rightarrow> string \<Rightarrow> string" where
  "mapValue_at m k = (case m k of None \<Rightarrow> [] | Some v \<Rightarrow> v)"

section \<open>showTransaction\<close>

definition showTransaction :: "CWalletTx \<Rightarrow> bool" where
  "showTransaction wtx =
     (if IsCoinBase wtx then (if GetDepthInMainChain wtx < 2 then False else True)
      else True)"

section \<open>decomposeTransaction\<close>

text \<open>
  The body of the credit loop for one wallet-owned output (lines 58 to 78): the record
  \<^verbatim>\<open>sub\<close> that is appended, \<open>n\<close> being \<^verbatim>\<open>parts.size()\<close>. \<open>ExtractAddress\<close>
  is the script decoder of the wallet library, a parameter here.
\<close>

definition credit_sub ::
  "(CScript \<Rightarrow> CBitcoinAddress option) \<Rightarrow> TransactionStatus \<Rightarrow> CWallet \<Rightarrow> CWalletTx
     \<Rightarrow> nat \<Rightarrow> CTxOut \<Rightarrow> TransactionRecord" where
  "credit_sub ExtractAddress st wallet wtx n txout =
     (let sub = TransactionRecord2 st (GetHash wtx) (GetTxTime wtx);
          sub = sub\<lparr>idx := int n\<rparr>;
          sub = sub\<lparr>credit := nValue txout\<rparr>
      in if IsCoinBase wtx then sub\<lparr>type := Generated\<rparr>
         else
           (case ExtractAddress (scriptPubKey txout) of
              Some a \<Rightarrow>
                if HaveKey wallet a
                then sub\<lparr>type := RecvWithAddress, address := ToString a\<rparr>
                else sub\<lparr>type := RecvFromOther,
                         address := mapValue_at (mapValue wtx) ''from''\<rparr>
            | None \<Rightarrow>
                sub\<lparr>type := RecvFromOther,
                    address := mapValue_at (mapValue wtx) ''from''\<rparr>))"

text \<open>
  The credit loop (\<^verbatim>\<open>BOOST_FOREACH\<close> over \<^verbatim>\<open>wtx.vout\<close>, lines 54 to 82), with the
  list \<open>parts\<close> built so far as accumulator.
\<close>

fun credit_loop ::
  "(CScript \<Rightarrow> CBitcoinAddress option) \<Rightarrow> TransactionStatus \<Rightarrow> CWallet \<Rightarrow> CWalletTx
     \<Rightarrow> CTxOut list \<Rightarrow> TransactionRecord list \<Rightarrow> TransactionRecord list" where
  "credit_loop ExtractAddress st wallet wtx [] parts = parts"
| "credit_loop ExtractAddress st wallet wtx (txout # rest) parts =
     (if IsMineOut wallet txout
      then credit_loop ExtractAddress st wallet wtx rest
             (parts @ [credit_sub ExtractAddress st wallet wtx (length parts) txout])
      else credit_loop ExtractAddress st wallet wtx rest parts)"

text \<open>
  The body of the debit loop for one output that is not the wallet's (lines 112, 113
  and 122 to 143): the record that is appended, \<open>n\<close> being \<^verbatim>\<open>parts.size()\<close> and
  \<open>nTxFee\<close> the fee not yet assigned.
\<close>

definition debit_sub ::
  "(CScript \<Rightarrow> CBitcoinAddress option) \<Rightarrow> TransactionStatus \<Rightarrow> CWallet \<Rightarrow> CWalletTx
     \<Rightarrow> nat \<Rightarrow> CTxOut \<Rightarrow> int64 \<Rightarrow> TransactionRecord" where
  "debit_sub ExtractAddress st wallet wtx n txout nTxFee =
     (let sub = TransactionRecord2 st (GetHash wtx) (GetTxTime wtx);
          sub = sub\<lparr>idx := int n\<rparr>;
          sub =
            (case ExtractAddress (scriptPubKey txout) of
               Some a \<Rightarrow> sub\<lparr>type := SendToAddress, address := ToString a\<rparr>
             | None \<Rightarrow>
                 sub\<lparr>type := SendToOther, address := mapValue_at (mapValue wtx) ''to''\<rparr>);
          nValue' = (if 0 <s nTxFee then nValue txout + nTxFee else nValue txout)
      in sub\<lparr>debit := - nValue'\<rparr>)"

text \<open>
  The debit loop (lines 109 to 146), with the fee not yet assigned and the list built so
  far as accumulators. An output of the wallet appends nothing and leaves the fee as it
  is; after an appended record the fee is 0 if it was positive.
\<close>

fun debit_loop ::
  "(CScript \<Rightarrow> CBitcoinAddress option) \<Rightarrow> TransactionStatus \<Rightarrow> CWallet \<Rightarrow> CWalletTx
     \<Rightarrow> CTxOut list \<Rightarrow> int64 \<Rightarrow> TransactionRecord list \<Rightarrow> TransactionRecord list" where
  "debit_loop ExtractAddress st wallet wtx [] nTxFee parts = parts"
| "debit_loop ExtractAddress st wallet wtx (txout # rest) nTxFee parts =
     (if IsMineOut wallet txout
      then debit_loop ExtractAddress st wallet wtx rest nTxFee parts
      else debit_loop ExtractAddress st wallet wtx rest
             (if 0 <s nTxFee then 0 else nTxFee)
             (parts @ [debit_sub ExtractAddress st wallet wtx (length parts) txout nTxFee]))"

definition decomposeTransaction ::
  "(CScript \<Rightarrow> CBitcoinAddress option) \<Rightarrow> TransactionStatus \<Rightarrow> CWallet \<Rightarrow> CWalletTx
     \<Rightarrow> TransactionRecord list" where
  "decomposeTransaction ExtractAddress st wallet wtx =
     (let parts = [];
          nTime = GetTxTime wtx;
          nCredit = GetCredit wtx True;
          nDebit = GetDebit wtx;
          nNet = nCredit - nDebit;
          hash = GetHash wtx
      in if showTransaction wtx then
           (if IsCoinStake wtx then
              parts @ [TransactionRecord6 st hash nTime StakeMint [] (- nDebit) (GetValueOut wtx)]
            else if 0 <s nNet \<or> IsCoinBase wtx then
              credit_loop ExtractAddress st wallet wtx (vout wtx) parts
            else
              (let fAllFromMe = fold (\<lambda>txin f. f \<and> IsMineIn wallet txin) (vin wtx) True;
                   fAllToMe = fold (\<lambda>txout f. f \<and> IsMineOut wallet txout) (vout wtx) True
               in if fAllFromMe \<and> fAllToMe then
                    (let nChange = GetChange wtx
                     in parts @ [TransactionRecord6 st hash nTime SendToSelf []
                                   (- (nDebit - nChange)) (nCredit - nChange)])
                  else if fAllFromMe then
                    (let nTxFee = nDebit - GetValueOut wtx
                     in debit_loop ExtractAddress st wallet wtx (vout wtx) nTxFee parts)
                  else
                    parts @ [TransactionRecord6 st hash nTime Other [] nNet 0]))
         else parts)"

section \<open>updateStatus\<close>

subsection \<open>The formatted sort key\<close>

text \<open>
  \<^verbatim>\<open>strprintf("%010d-%01d-%010u-%03d", ...)\<close>: decimal digits, padded on the left
  with zeros to the field width; for a negative number the sign comes first and counts
  in the width. \<open>digit_char\<close> is only ever applied to a number below 10.
\<close>

definition digit_char :: "nat \<Rightarrow> char" where
  "digit_char d = ''0123456789'' ! d"

function dec :: "nat \<Rightarrow> string" where
  "dec n = (if n < 10 then [digit_char n] else dec (n div 10) @ [digit_char (n mod 10)])"
  by pat_completeness auto
termination
  by (relation "measure (\<lambda>n. n)") auto

declare dec.simps [simp del]

definition zero_pad :: "nat \<Rightarrow> string \<Rightarrow> string" where
  "zero_pad w s = replicate (w - length s) CHR ''0'' @ s"

definition fmt_d :: "nat \<Rightarrow> int \<Rightarrow> string" where
  "fmt_d w i =
     (if i < 0 then CHR ''-'' # zero_pad (w - 1) (dec (nat (- i)))
      else zero_pad w (dec (nat i)))"

definition fmt_u :: "nat \<Rightarrow> nat \<Rightarrow> string" where
  "fmt_u w n = zero_pad w (dec n)"

definition INT_MAX :: "32 word" where
  "INT_MAX = 2147483647"

definition strprintf_sortKey :: "32 word \<Rightarrow> int \<Rightarrow> 32 word \<Rightarrow> int \<Rightarrow> string" where
  "strprintf_sortKey height coinbase received i =
     fmt_d 10 (sint height) @ ''-'' @ fmt_d 1 coinbase @ ''-''
       @ fmt_u 10 (unat received) @ ''-'' @ fmt_d 3 i"

subsection \<open>The chain state and the function\<close>

record CBlockIndex =
  nHeight :: "32 word"

text \<open>
  The globals \<^verbatim>\<open>updateStatus\<close> reads. \<^verbatim>\<open>mapBlockIndex\<close> maps a block hash to a
  pointer, \<open>None\<close> being the null pointer. \<^verbatim>\<open>nHeight\<close> is an \<^verbatim>\<open>int\<close> (it shares
  a conditional expression with \<^verbatim>\<open>std::numeric_limits<int>::max()\<close> and is printed
  with \<^verbatim>\<open>%d\<close>), and so is \<^verbatim>\<open>nBestHeight\<close>: 32-bit words, read with \<open>sint\<close>.
  \<^verbatim>\<open>LOCKTIME_THRESHOLD\<close> is the constant that \<^verbatim>\<open>nLockTime\<close> is compared with,
  as an \<^verbatim>\<open>unsigned int\<close> since that is the type the comparison is made in.
  \<^verbatim>\<open>NumConfirmations\<close> is a constant declared outside this file and
  \<^verbatim>\<open>GetAdjustedTime()\<close> a 64-bit time, whose difference with a 32-bit receive time
  is exact: integers here.
\<close>

record Globals =
  mapBlockIndex :: "uint256 \<rightharpoonup> CBlockIndex option"
  nBestHeight :: "32 word"
  GetAdjustedTime :: int
  LOCKTIME_THRESHOLD :: "32 word"
  NumConfirmations :: int

definition find_pindex :: "Globals \<Rightarrow> CWalletTx \<Rightarrow> CBlockIndex option" where
  "find_pindex g wtx =
     (case mapBlockIndex g (hashBlock wtx) of None \<Rightarrow> None | Some p \<Rightarrow> p)"

text \<open>
  In \<^verbatim>\<open>nBestHeight - wtx.nLockTime\<close> (line 186) the \<^verbatim>\<open>int\<close> is converted to
  \<^verbatim>\<open>unsigned int\<close> and the difference is taken modulo \<open>2 ^ 32\<close>; the unsigned result
  is then stored, unchanged in value, in the 64-bit \<^verbatim>\<open>open_for\<close> (\<open>ucast\<close>).
\<close>

definition updateStatus :: "Globals \<Rightarrow> CWalletTx \<Rightarrow> TransactionRecord \<Rightarrow> TransactionRecord" where
  "updateStatus g wtx r =
     (let pindex = find_pindex g wtx;
          s = status r;
          s = s\<lparr>sortKey :=
                 strprintf_sortKey
                   (case pindex of Some b \<Rightarrow> nHeight b | None \<Rightarrow> INT_MAX)
                   (if IsCoinBase wtx then 1 else 0)
                   (nTimeReceived wtx)
                   (idx r)\<rparr>;
          s = s\<lparr>confirmed := IsConfirmed wtx\<rparr>;
          s = s\<lparr>depth := GetDepthInMainChain wtx\<rparr>;
          s = s\<lparr>cur_num_blocks := nBestHeight g\<rparr>;
          s =
            (if \<not> IsFinal wtx then
               (if nLockTime wtx < LOCKTIME_THRESHOLD g
                then s\<lparr>status' := OpenUntilBlock,
                        open_for := ucast (nBestHeight g - nLockTime wtx)\<rparr>
                else s\<lparr>status' := OpenUntilDate, open_for := ucast (nLockTime wtx)\<rparr>)
             else
               (if GetAdjustedTime g - uint (nTimeReceived wtx) > 2 * 60
                     \<and> GetRequestCount wtx = 0
                then s\<lparr>status' := Offline\<rparr>
                else if depth s < NumConfirmations g
                then s\<lparr>status' := Unconfirmed\<rparr>
                else s\<lparr>status' := HaveConfirmations\<rparr>));
          s =
            (if type r = Generated \<or> type r = StakeMint then
               (let nCredit = GetCredit wtx True
                in if nCredit = 0 then
                     (let s = s\<lparr>maturity := Immature\<rparr>
                      in if IsInMainChain wtx then
                           (let s = s\<lparr>matures_in := GetBlocksToMaturity wtx\<rparr>
                            in if GetAdjustedTime g - uint (nTimeReceived wtx) > 2 * 60
                                    \<and> GetRequestCount wtx = 0
                               then s\<lparr>maturity := MaturesWarning\<rparr>
                               else s)
                         else s\<lparr>maturity := NotAccepted\<rparr>)
                   else s\<lparr>maturity := Mature\<rparr>)
             else s)
      in r\<lparr>status := s\<rparr>)"

section \<open>Concrete inputs\<close>

text \<open>
  A small world on which the theorems below are instantiated. An output whose script is
  \<open>[1]\<close> pays an address of the wallet, one whose script is empty is the wallet's but
  decodes to no address, any other output is somebody else's; an input is the wallet's
  when it spends output 0 of its previous transaction.
\<close>

definition example_extract :: "CScript \<Rightarrow> CBitcoinAddress option" where
  "example_extract s =
     (case s of
        [] \<Rightarrow> None
      | b # _ \<Rightarrow> Some (CBitcoinAddress (if b = 1 then ''mine'' else ''theirs'')))"

definition example_wallet :: CWallet where
  "example_wallet =
     \<lparr>IsMineIn = (\<lambda>txin. prevout_n txin = 0),
      IsMineOut = (\<lambda>txout. scriptPubKey txout = [1] \<or> scriptPubKey txout = []),
      HaveKey = (\<lambda>a. a = CBitcoinAddress ''mine'')\<rparr>"

definition example_status :: TransactionStatus where
  "example_status =
     \<lparr>confirmed = False, sortKey = [], maturity = NotApplicable, matures_in = 0,
      status' = Offline, depth = 0, open_for = 0, cur_num_blocks = 0\<rparr>"

definition example_wtx :: CWalletTx where
  "example_wtx =
     \<lparr>vin = [], vout = [], mapValue = Map.empty, nTimeReceived = 0, nLockTime = 0,
      hashBlock = 0, IsCoinBase = False, IsCoinStake = False, GetDepthInMainChain = 0,
      GetTxTime = 0, GetCredit = (\<lambda>_. 0), GetDebit = 0, GetChange = 0, GetValueOut = 0,
      GetHash = 0, IsConfirmed = False, IsFinal = True, GetRequestCount = 0,
      IsInMainChain = False, GetBlocksToMaturity = 0\<rparr>"

definition example_globals :: Globals where
  "example_globals =
     \<lparr>mapBlockIndex = [7 \<mapsto> Some \<lparr>nHeight = 100\<rparr>], nBestHeight = 100,
      GetAdjustedTime = 1000, LOCKTIME_THRESHOLD = 500000000, NumConfirmations = 6\<rparr>"

definition example_record :: TransactionRecord where
  "example_record = TransactionRecord6 example_status 0 0 SendToAddress ''theirs'' (- 510) 0"

text \<open>
  A coinbase transaction with two outputs of the wallet, worth 100 and 200, at a given
  depth.
\<close>

definition coinbase_wtx :: "int \<Rightarrow> CWalletTx" where
  "coinbase_wtx d =
     example_wtx\<lparr>vout := [\<lparr>nValue = 100, scriptPubKey = [1]\<rparr>,
                            \<lparr>nValue = 200, scriptPubKey = [1]\<rparr>],
                  IsCoinBase := True, GetDepthInMainChain := d,
                  GetCredit := (\<lambda>_. 300), GetValueOut := 300\<rparr>"

text \<open>A stake-minting transaction with no confirmation yet.\<close>

definition coinstake_wtx :: CWalletTx where
  "coinstake_wtx =
     example_wtx\<lparr>vin := [\<lparr>prevout_hash = 5, prevout_n = 0\<rparr>],
                  vout := [\<lparr>nValue = 0, scriptPubKey = []\<rparr>,
                           \<lparr>nValue = 1010, scriptPubKey = [1]\<rparr>],
                  IsCoinStake := True, GetDebit := 1000, GetValueOut := 1010\<rparr>"

text \<open>
  A payment received: 70 to an address of the wallet, 30 to the wallet without an
  address, 900 to somebody else, from inputs that are not the wallet's.
\<close>

definition receive_wtx :: CWalletTx where
  "receive_wtx =
     example_wtx\<lparr>vin := [\<lparr>prevout_hash = 5, prevout_n = 1\<rparr>],
                  vout := [\<lparr>nValue = 70, scriptPubKey = [1]\<rparr>,
                           \<lparr>nValue = 900, scriptPubKey = [2]\<rparr>,
                           \<lparr>nValue = 30, scriptPubKey = []\<rparr>],
                  mapValue := [''from'' \<mapsto> ''alice''],
                  GetCredit := (\<lambda>_. 100), GetValueOut := 1000\<rparr>"

text \<open>
  A payment sent from the wallet's own inputs: change of 200 first, then 500 and 40 to
  others; the inputs are worth \<open>spent\<close>.
\<close>

definition send_wtx :: "int64 \<Rightarrow> CWalletTx" where
  "send_wtx spent =
     example_wtx\<lparr>vin := [\<lparr>prevout_hash = 5, prevout_n = 0\<rparr>],
                  vout := [\<lparr>nValue = 200, scriptPubKey = [1]\<rparr>,
                           \<lparr>nValue = 500, scriptPubKey = [2]\<rparr>,
                           \<lparr>nValue = 40, scriptPubKey = [3]\<rparr>],
                  GetCredit := (\<lambda>_. 200), GetDebit := spent, GetChange := 200,
                  GetValueOut := 740\<rparr>"

text \<open>The scenario of the spec: one output of 500 to somebody else, fee 10.\<close>

definition send_500_wtx :: CWalletTx where
  "send_500_wtx =
     example_wtx\<lparr>vin := [\<lparr>prevout_hash = 5, prevout_n = 0\<rparr>],
                  vout := [\<lparr>nValue = 500, scriptPubKey = [2]\<rparr>],
                  GetDebit := 510, GetValueOut := 500\<rparr>"

text \<open>The scenario of the spec: a payment to self, debit 1000, credit 990, change 990.\<close>

definition self_wtx :: CWalletTx where
  "self_wtx =
     example_wtx\<lparr>vin := [\<lparr>prevout_hash = 5, prevout_n = 0\<rparr>],
                  vout := [\<lparr>nValue = 990, scriptPubKey = [1]\<rparr>],
                  GetCredit := (\<lambda>_. 990), GetDebit := 1000, GetChange := 990,
                  GetValueOut := 990\<rparr>"

text \<open>
  The scenario of the spec: one input of the wallet and one of somebody else, net
  value -50.
\<close>

definition mixed_wtx :: CWalletTx where
  "mixed_wtx =
     example_wtx\<lparr>vin := [\<lparr>prevout_hash = 5, prevout_n = 0\<rparr>,
                          \<lparr>prevout_hash = 6, prevout_n = 1\<rparr>],
                  vout := [\<lparr>nValue = 120, scriptPubKey = [2]\<rparr>],
                  GetDebit := 50, GetValueOut := 120\<rparr>"

section \<open>Auxiliary definition for the proofs\<close>

text \<open>
  The last \<open>k\<close> decimal digits of \<open>n\<close>: what zero padding to width \<open>k\<close> gives
  for a number below \<open>10 ^ k\<close>. It is used to compare formatted numbers.
\<close>

fun fixed_dec :: "nat \<Rightarrow> nat \<Rightarrow> string" where
  "fixed_dec 0 n = []"
| "fixed_dec (Suc k) n = fixed_dec k (n div 10) @ [digit_char (n mod 10)]"

section \<open>The loops of decomposeTransaction\<close>

lemma fold_conj_list_all: "fold (\<lambda>x f. f \<and> P x) xs b = (b \<and> list_all P xs)"
  by (induction xs arbitrary: b) auto

lemma showTransaction_not_coinbase: "\<not> IsCoinBase wtx \<Longrightarrow> showTransaction wtx"
  by (simp add: showTransaction_def)

lemma length_credit_loop:
  "length (credit_loop E st w wtx outs parts)
     = length parts + length (filter (IsMineOut w) outs)"
  by (induction outs arbitrary: parts) simp_all

lemma nth_credit_loop:
  "i < length parts + length (filter (IsMineOut w) outs) \<Longrightarrow>
   credit_loop E st w wtx outs parts ! i =
     (if i < length parts then parts ! i
      else credit_sub E st w wtx i (filter (IsMineOut w) outs ! (i - length parts)))"
proof (induction outs arbitrary: parts)
  case Nil
  then show ?case by simp
next
  case (Cons txout rest)
  show ?case
  proof (cases "IsMineOut w txout")
    case False
    with Cons show ?thesis by simp
  next
    case True
    let ?sub = "credit_sub E st w wtx (length parts) txout"
    from Cons.prems True
    have "i < length (parts @ [?sub]) + length (filter (IsMineOut w) rest)" by simp
    from Cons.IH [OF this] True show ?thesis
      by (auto simp: nth_append nth_Cons' not_less less_Suc_eq)
  qed
qed

lemma length_debit_loop:
  "length (debit_loop E st w wtx outs fee parts)
     = length parts + length (filter (\<lambda>txout. \<not> IsMineOut w txout) outs)"
  by (induction outs arbitrary: parts fee) simp_all

text \<open>
  Only the record appended first can see a positive fee: every later one is built with
  a fee that is 0 or was not positive to begin with, which \<open>debit_sub\<close> treats alike.
\<close>

lemma nth_debit_loop:
  "i < length parts + length (filter (\<lambda>txout. \<not> IsMineOut w txout) outs) \<Longrightarrow>
   debit_loop E st w wtx outs fee parts ! i =
     (if i < length parts then parts ! i
      else debit_sub E st w wtx i
             (filter (\<lambda>txout. \<not> IsMineOut w txout) outs ! (i - length parts))
             (if i = length parts then fee else 0))"
proof (induction outs arbitrary: parts fee)
  case Nil
  then show ?case by simp
next
  case (Cons txout rest)
  show ?case
  proof (cases "IsMineOut w txout")
    case True
    with Cons show ?thesis by simp
  next
    case False
    let ?sub = "debit_sub E st w wtx (length parts) txout fee"
    let ?fee = "if 0 <s fee then 0 else fee"
    have later: "debit_sub E st w wtx n t ?fee = debit_sub E st w wtx n t 0" for n t
      by (simp add: debit_sub_def)
    from Cons.prems False
    have "i < length (parts @ [?sub]) + length (filter (\<lambda>txout. \<not> IsMineOut w txout) rest)"
      by simp
    from Cons.IH [OF this, of ?fee] False show ?thesis
      by (auto simp: nth_append nth_Cons' not_less less_Suc_eq later)
  qed
qed

lemma idx_credit_sub: "idx (credit_sub E st w wtx n txout) = int n"
  by (simp add: credit_sub_def TransactionRecord2_def Let_def split: option.split)

lemma idx_debit_sub: "idx (debit_sub E st w wtx n txout fee) = int n"
  by (simp add: debit_sub_def TransactionRecord2_def Let_def split: option.split)

text \<open>Both loops keep the indices of the list equal to the positions.\<close>

lemma idx_credit_loop:
  "map idx parts = map int [0..<length parts] \<Longrightarrow>
   map idx (credit_loop E st w wtx outs parts)
     = map int [0..<length (credit_loop E st w wtx outs parts)]"
  by (induction outs arbitrary: parts) (simp_all add: idx_credit_sub)

lemma idx_debit_loop:
  "map idx parts = map int [0..<length parts] \<Longrightarrow>
   map idx (debit_loop E st w wtx outs fee parts)
     = map int [0..<length (debit_loop E st w wtx outs fee parts)]"
  by (induction outs arbitrary: parts fee) (simp_all add: idx_debit_sub)

text \<open>The branch taken, under the conditions that select it.\<close>

lemma decompose_credit_branch:
  "showTransaction wtx \<Longrightarrow> \<not> IsCoinStake wtx \<Longrightarrow>
   0 <s GetCredit wtx True - GetDebit wtx \<or> IsCoinBase wtx \<Longrightarrow>
   decomposeTransaction E st w wtx = credit_loop E st w wtx (vout wtx) []"
  by (simp add: decomposeTransaction_def Let_def)

lemma decompose_debit_branch:
  "\<not> IsCoinStake wtx \<Longrightarrow> \<not> IsCoinBase wtx \<Longrightarrow> \<not> 0 <s GetCredit wtx True - GetDebit wtx \<Longrightarrow>
   list_all (IsMineIn w) (vin wtx) \<Longrightarrow> \<not> list_all (IsMineOut w) (vout wtx) \<Longrightarrow>
   decomposeTransaction E st w wtx
     = debit_loop E st w wtx (vout wtx) (GetDebit wtx - GetValueOut wtx) []"
  by (simp add: decomposeTransaction_def Let_def showTransaction_not_coinbase
      fold_conj_list_all)

section \<open>Claims about showTransaction and decomposeTransaction\<close>

text \<open>
  Claim C2, as amended. The filter tests \<^verbatim>\<open>IsCoinBase\<close> only. A coinbase transaction
  whose depth in the main chain is below 2 is not shown and decomposes into no record;
  every transaction that is not a coinbase, a stake-minting one included, is shown
  whatever its depth.
\<close>

theorem showTransaction_hides_young_coinbase_only:
  "(IsCoinBase wtx \<and> GetDepthInMainChain wtx < 2 \<longrightarrow>
      \<not> showTransaction wtx \<and> decomposeTransaction E st w wtx = [])
   \<and> (\<not> IsCoinBase wtx \<longrightarrow> showTransaction wtx)"
  by (simp add: showTransaction_def decomposeTransaction_def)

text \<open>
  The theorem at the coinbase of the spec's scenario, at depth 0, and at a stake-minting
  transaction.
\<close>

theorem showTransaction_hides_young_coinbase_only_witness:
  "IsCoinBase (coinbase_wtx 0) \<and> GetDepthInMainChain (coinbase_wtx 0) < 2
   \<and> \<not> showTransaction (coinbase_wtx 0)
   \<and> decomposeTransaction example_extract example_status example_wallet (coinbase_wtx 0) = []
   \<and> \<not> IsCoinBase coinstake_wtx \<and> showTransaction coinstake_wtx"
  using showTransaction_hides_young_coinbase_only
          [of "coinbase_wtx 0" example_extract example_status example_wallet]
        showTransaction_hides_young_coinbase_only
          [of coinstake_wtx example_extract example_status example_wallet]
  by (simp add: coinbase_wtx_def coinstake_wtx_def example_wtx_def)

text \<open>
  Claim C2 as stated fails: a stake-minting transaction with no confirmation passes the
  filter and decomposes into one record.
\<close>

theorem showTransaction_shows_young_coinstake:
  "IsCoinStake coinstake_wtx \<and> GetDepthInMainChain coinstake_wtx < 2
   \<and> showTransaction coinstake_wtx
   \<and> decomposeTransaction example_extract example_status example_wallet coinstake_wtx
       = [TransactionRecord6 example_status 0 0 StakeMint [] (- 1000) 1010]"
  by (simp add: decomposeTransaction_def showTransaction_def coinstake_wtx_def
      example_wtx_def)

text \<open>
  Claim C3. For a shown transaction that is not stake-minting and whose net value is
  positive or which is a coinbase, the records are, in output order, one for each output
  of the wallet, with that output's value as credit (and its position among those
  outputs as index). The type is Generated for a coinbase; otherwise RecvWithAddress
  with the decoded address when the script decodes to an address whose key the wallet
  holds, and RecvFromOther with the "from" label (empty if there is none) when it does
  not.
\<close>

theorem decomposeTransaction_credit_records:
  assumes "showTransaction wtx"
    and "\<not> IsCoinStake wtx"
    and "0 <s GetCredit wtx True - GetDebit wtx \<or> IsCoinBase wtx"
  shows
    "length (decomposeTransaction E st w wtx) = length (filter (IsMineOut w) (vout wtx))
     \<and> (\<forall>i < length (filter (IsMineOut w) (vout wtx)).
          credit (decomposeTransaction E st w wtx ! i)
            = nValue (filter (IsMineOut w) (vout wtx) ! i)
          \<and> idx (decomposeTransaction E st w wtx ! i) = int i
          \<and> (IsCoinBase wtx \<longrightarrow> type (decomposeTransaction E st w wtx ! i) = Generated)
          \<and> (\<not> IsCoinBase wtx \<longrightarrow>
               (\<forall>a. E (scriptPubKey (filter (IsMineOut w) (vout wtx) ! i)) = Some a
                       \<and> HaveKey w a \<longrightarrow>
                     type (decomposeTransaction E st w wtx ! i) = RecvWithAddress
                     \<and> address (decomposeTransaction E st w wtx ! i) = ToString a)
               \<and> ((\<forall>a. E (scriptPubKey (filter (IsMineOut w) (vout wtx) ! i)) = Some a
                         \<longrightarrow> \<not> HaveKey w a) \<longrightarrow>
                     type (decomposeTransaction E st w wtx ! i) = RecvFromOther
                     \<and> address (decomposeTransaction E st w wtx ! i)
                         = (case mapValue wtx ''from'' of None \<Rightarrow> [] | Some v \<Rightarrow> v))))"
proof -
  let ?owned = "filter (IsMineOut w) (vout wtx)"
  have eq: "decomposeTransaction E st w wtx = credit_loop E st w wtx (vout wtx) []"
    using assms by (rule decompose_credit_branch)
  have len: "length (decomposeTransaction E st w wtx) = length ?owned"
    by (simp add: eq length_credit_loop)
  have nth: "decomposeTransaction E st w wtx ! i = credit_sub E st w wtx i (?owned ! i)"
    if "i < length ?owned" for i
    using that by (simp add: eq nth_credit_loop)
  show ?thesis
    using len
    by (auto simp: nth credit_sub_def TransactionRecord2_def mapValue_at_def Let_def
        split: option.splits)
qed

text \<open>
  The theorem at the coinbase of the spec's scenario, at depth 2 (two Generated records
  with credits 100 and 200 and indices 0 and 1), and at a payment received.
\<close>

theorem decomposeTransaction_credit_records_witness:
  "showTransaction (coinbase_wtx 2) \<and> \<not> IsCoinStake (coinbase_wtx 2)
   \<and> IsCoinBase (coinbase_wtx 2)
   \<and> map (\<lambda>r. (type r, credit r, idx r))
         (decomposeTransaction example_extract example_status example_wallet (coinbase_wtx 2))
       = [(Generated, 100, 0), (Generated, 200, 1)]
   \<and> showTransaction receive_wtx \<and> \<not> IsCoinStake receive_wtx
   \<and> 0 <s GetCredit receive_wtx True - GetDebit receive_wtx
   \<and> map (\<lambda>r. (type r, address r, credit r, idx r))
         (decomposeTransaction example_extract example_status example_wallet receive_wtx)
       = [(RecvWithAddress, ''mine'', 70, 0), (RecvFromOther, ''alice'', 30, 1)]"
  using decomposeTransaction_credit_records
          [of "coinbase_wtx 2" example_extract example_status example_wallet]
        decomposeTransaction_credit_records
          [of receive_wtx example_extract example_status example_wallet]
  by (simp add: word_sless_alt decomposeTransaction_def showTransaction_def
      coinbase_wtx_def receive_wtx_def example_wtx_def example_wallet_def
      example_extract_def credit_sub_def TransactionRecord2_def mapValue_at_def)

text \<open>
  Claim C4, as amended. In the debit case (not stake-minting, not a coinbase, net value
  not positive, every input the wallet's, not every output the wallet's; such a
  transaction is always shown) the records are, in output order, one for each output
  that is not the wallet's, the wallet's own outputs being skipped. The fee is the total
  debit minus the total output value. When it is positive it is added, whole, to the
  first record only, whose debit is then \<open>- (value + fee)\<close>; when it is not positive
  nothing is added; the debit of every later record is \<open>- value\<close>. The type is
  SendToAddress with the decoded address, or SendToOther with the "to" label.
\<close>

theorem decomposeTransaction_debit_records:
  assumes "\<not> IsCoinStake wtx"
    and "\<not> IsCoinBase wtx"
    and "\<not> 0 <s GetCredit wtx True - GetDebit wtx"
    and "list_all (IsMineIn w) (vin wtx)"
    and "\<not> list_all (IsMineOut w) (vout wtx)"
  shows
    "length (decomposeTransaction E st w wtx)
       = length (filter (\<lambda>txout. \<not> IsMineOut w txout) (vout wtx))
     \<and> (\<forall>i < length (filter (\<lambda>txout. \<not> IsMineOut w txout) (vout wtx)).
          idx (decomposeTransaction E st w wtx ! i) = int i
          \<and> debit (decomposeTransaction E st w wtx ! i)
              = (if i = 0 \<and> 0 <s GetDebit wtx - GetValueOut wtx
                 then - (nValue (filter (\<lambda>txout. \<not> IsMineOut w txout) (vout wtx) ! i)
                          + (GetDebit wtx - GetValueOut wtx))
                 else - nValue (filter (\<lambda>txout. \<not> IsMineOut w txout) (vout wtx) ! i))
          \<and> (case E (scriptPubKey (filter (\<lambda>txout. \<not> IsMineOut w txout) (vout wtx) ! i)) of
                Some a \<Rightarrow>
                  type (decomposeTransaction E st w wtx ! i) = SendToAddress
                  \<and> address (decomposeTransaction E st w wtx ! i) = ToString a
              | None \<Rightarrow>
                  type (decomposeTransaction E st w wtx ! i) = SendToOther
                  \<and> address (decomposeTransaction E st w wtx ! i)
                      = (case mapValue wtx ''to'' of None \<Rightarrow> [] | Some v \<Rightarrow> v)))"
proof -
  let ?ext = "filter (\<lambda>txout. \<not> IsMineOut w txout) (vout wtx)"
  let ?fee = "GetDebit wtx - GetValueOut wtx"
  have eq: "decomposeTransaction E st w wtx = debit_loop E st w wtx (vout wtx) ?fee []"
    using assms by (rule decompose_debit_branch)
  have len: "length (decomposeTransaction E st w wtx) = length ?ext"
    by (simp add: eq length_debit_loop)
  have nth: "decomposeTransaction E st w wtx ! i
               = debit_sub E st w wtx i (?ext ! i) (if i = 0 then ?fee else 0)"
    if "i < length ?ext" for i
    using that by (simp add: eq nth_debit_loop)
  show ?thesis
    using len
    by (auto simp: nth debit_sub_def TransactionRecord2_def mapValue_at_def Let_def
        split: option.splits)
qed

text \<open>
  The theorem at the spec's scenario (one output of 500 to somebody else, fee 10: one
  SendToAddress record with debit -510) and at a payment with change and two payees.
\<close>

theorem decomposeTransaction_debit_records_witness:
  "\<not> IsCoinStake send_500_wtx \<and> \<not> IsCoinBase send_500_wtx
   \<and> \<not> 0 <s GetCredit send_500_wtx True - GetDebit send_500_wtx
   \<and> list_all (IsMineIn example_wallet) (vin send_500_wtx)
   \<and> \<not> list_all (IsMineOut example_wallet) (vout send_500_wtx)
   \<and> GetDebit send_500_wtx - GetValueOut send_500_wtx = 10
   \<and> map (\<lambda>r. (type r, address r, debit r, idx r))
         (decomposeTransaction example_extract example_status example_wallet send_500_wtx)
       = [(SendToAddress, ''theirs'', - 510, 0)]
   \<and> map (\<lambda>r. (type r, address r, debit r, idx r))
         (decomposeTransaction example_extract example_status example_wallet (send_wtx 750))
       = [(SendToAddress, ''theirs'', - 510, 0), (SendToAddress, ''theirs'', - 40, 1)]"
  using decomposeTransaction_debit_records
          [of send_500_wtx example_wallet example_extract example_status]
        decomposeTransaction_debit_records
          [of "send_wtx 750" example_wallet example_extract example_status]
  by (simp add: word_sless_alt decomposeTransaction_def showTransaction_def
      send_500_wtx_def send_wtx_def example_wtx_def example_wallet_def
      example_extract_def debit_sub_def TransactionRecord2_def mapValue_at_def)

text \<open>
  Claim C4 as stated fails where the fee is negative: with inputs worth 700 and outputs
  worth 740 the fee is -40, the guard \<^verbatim>\<open>nTxFee > 0\<close> adds nothing, and the debit of the
  first record is -500, not \<open>- (500 + fee)\<close>.
\<close>

theorem decomposeTransaction_negative_fee_not_added:
  "\<not> IsCoinStake (send_wtx 700) \<and> \<not> IsCoinBase (send_wtx 700)
   \<and> showTransaction (send_wtx 700)
   \<and> \<not> 0 <s GetCredit (send_wtx 700) True - GetDebit (send_wtx 700)
   \<and> list_all (IsMineIn example_wallet) (vin (send_wtx 700))
   \<and> \<not> list_all (IsMineOut example_wallet) (vout (send_wtx 700))
   \<and> GetDebit (send_wtx 700) - GetValueOut (send_wtx 700) = - 40
   \<and> map debit
         (decomposeTransaction example_extract example_status example_wallet (send_wtx 700))
       = [- 500, - 40]
   \<and> debit (decomposeTransaction example_extract example_status example_wallet
              (send_wtx 700) ! 0)
       \<noteq> - (500 + (GetDebit (send_wtx 700) - GetValueOut (send_wtx 700)))"
  by (simp add: word_sless_alt decomposeTransaction_def showTransaction_def
      send_wtx_def example_wtx_def example_wallet_def
      example_extract_def debit_sub_def TransactionRecord2_def mapValue_at_def)

text \<open>
  Claim C5. For a transaction that is not stake-minting, not a coinbase and of net value
  not positive (such a transaction is always shown), whose inputs and outputs are all
  the wallet's, there is exactly one record: type SendToSelf, empty counterparty, debit
  \<open>- (totalDebit - change)\<close> and credit \<open>totalCredit - change\<close>.
\<close>

theorem decomposeTransaction_self_payment:
  assumes "\<not> IsCoinStake wtx"
    and "\<not> IsCoinBase wtx"
    and "\<not> 0 <s GetCredit wtx True - GetDebit wtx"
    and "list_all (IsMineIn w) (vin wtx)"
    and "list_all (IsMineOut w) (vout wtx)"
  shows
    "decomposeTransaction E st w wtx =
       [\<lparr>hash = GetHash wtx, time = GetTxTime wtx, type = SendToSelf, address = [],
         debit = - (GetDebit wtx - GetChange wtx),
         credit = GetCredit wtx True - GetChange wtx, idx = 0, status = st\<rparr>]"
  using assms
  by (simp add: decomposeTransaction_def Let_def showTransaction_not_coinbase
      fold_conj_list_all TransactionRecord6_def)

text \<open>
  The theorem at the spec's scenario: total debit 1000, total credit 990, change 990
  give one SendToSelf record with debit -10 and credit 0.
\<close>

theorem decomposeTransaction_self_payment_witness:
  "\<not> IsCoinStake self_wtx \<and> \<not> IsCoinBase self_wtx
   \<and> \<not> 0 <s GetCredit self_wtx True - GetDebit self_wtx
   \<and> list_all (IsMineIn example_wallet) (vin self_wtx)
   \<and> list_all (IsMineOut example_wallet) (vout self_wtx)
   \<and> GetDebit self_wtx = 1000 \<and> GetCredit self_wtx True = 990 \<and> GetChange self_wtx = 990
   \<and> decomposeTransaction example_extract example_status example_wallet self_wtx =
       [\<lparr>hash = 0, time = 0, type = SendToSelf, address = [], debit = - 10, credit = 0,
         idx = 0, status = example_status\<rparr>]"
  using decomposeTransaction_self_payment
          [of self_wtx example_wallet example_extract example_status]
  by (simp add: word_sless_alt self_wtx_def example_wtx_def example_wallet_def)

text \<open>
  Claim C6. For a transaction that is not stake-minting, not a coinbase and of net value
  not positive (such a transaction is always shown), some input of which is not the
  wallet's, there is exactly one record: type Other, empty counterparty, the net value
  (total credit minus total debit) as debit, and credit 0. The outputs play no part:
  the branch is taken whether or not they are all the wallet's, so in particular when
  they are not.
\<close>

theorem decomposeTransaction_mixed:
  assumes "\<not> IsCoinStake wtx"
    and "\<not> IsCoinBase wtx"
    and "\<not> 0 <s GetCredit wtx True - GetDebit wtx"
    and "\<not> list_all (IsMineIn w) (vin wtx)"
  shows
    "decomposeTransaction E st w wtx =
       [\<lparr>hash = GetHash wtx, time = GetTxTime wtx, type = Other, address = [],
         debit = GetCredit wtx True - GetDebit wtx, credit = 0, idx = 0, status = st\<rparr>]"
  using assms
  by (simp add: decomposeTransaction_def Let_def showTransaction_not_coinbase
      fold_conj_list_all TransactionRecord6_def)

text \<open>
  The theorem at the spec's scenario: one input the wallet's and one not, no output the
  wallet's, net value -50 give one Other record with debit -50 and credit 0.
\<close>

theorem decomposeTransaction_mixed_witness:
  "\<not> IsCoinStake mixed_wtx \<and> \<not> IsCoinBase mixed_wtx
   \<and> \<not> 0 <s GetCredit mixed_wtx True - GetDebit mixed_wtx
   \<and> \<not> list_all (IsMineIn example_wallet) (vin mixed_wtx)
   \<and> \<not> list_all (IsMineOut example_wallet) (vout mixed_wtx)
   \<and> GetCredit mixed_wtx True - GetDebit mixed_wtx = - 50
   \<and> decomposeTransaction example_extract example_status example_wallet mixed_wtx =
       [\<lparr>hash = 0, time = 0, type = Other, address = [], debit = - 50, credit = 0,
         idx = 0, status = example_status\<rparr>]"
  using decomposeTransaction_mixed
          [of mixed_wtx example_wallet example_extract example_status]
  by (simp add: word_sless_alt mixed_wtx_def example_wtx_def example_wallet_def)

text \<open>
  Claim C7. In every branch the indices of the records returned are 0, 1, ..., n - 1 in
  list order: the stake-mint, self-payment and mixed branches return one record with
  index 0, and both loops give each record the length of the list it is appended to,
  the debit loop appending nothing for an output it skips.
\<close>

theorem decomposeTransaction_idx_dense:
  "map idx (decomposeTransaction E st w wtx)
     = map int [0..<length (decomposeTransaction E st w wtx)]"
  by (simp add: decomposeTransaction_def Let_def TransactionRecord6_def
      idx_credit_loop idx_debit_loop)

section \<open>The lifecycle, the maturity and the frame of updateStatus\<close>

text \<open>
  The lifecycle state is assigned by one exclusive ladder: a transaction that is not
  final is OpenUntilBlock when the lock value is below the threshold constant and
  OpenUntilDate otherwise; a final one is Offline when more than 120 seconds have passed
  since it was received and its request count is zero, else Unconfirmed when its depth is
  below the number of confirmations required, else HaveConfirmations.
\<close>

lemma updateStatus_status_ladder:
  "status' (status (updateStatus g wtx r)) =
     (if \<not> IsFinal wtx then
        (if nLockTime wtx < LOCKTIME_THRESHOLD g then OpenUntilBlock else OpenUntilDate)
      else if GetAdjustedTime g - uint (nTimeReceived wtx) > 120 \<and> GetRequestCount wtx = 0
      then Offline
      else if GetDepthInMainChain wtx < NumConfirmations g then Unconfirmed
      else HaveConfirmations)"
  by (simp add: updateStatus_def Let_def)

text \<open>
  What is stored in \<^verbatim>\<open>open_for\<close> for a transaction that is not final: the unsigned
  32-bit difference, or the lock value.
\<close>

lemma updateStatus_open_for:
  "\<not> IsFinal wtx \<Longrightarrow>
   open_for (status (updateStatus g wtx r)) =
     (if nLockTime wtx < LOCKTIME_THRESHOLD g then ucast (nBestHeight g - nLockTime wtx)
      else ucast (nLockTime wtx))"
  by (simp add: updateStatus_def Let_def)

text \<open>
  While the lock value does not exceed the height, the difference stored is the
  difference of the two numbers; the spec's scenario (height 100, lock value 90, open
  for 10) is of that kind.
\<close>

lemma updateStatus_open_for_no_wrap:
  assumes "\<not> IsFinal wtx"
    and "nLockTime wtx < LOCKTIME_THRESHOLD g"
    and "nLockTime wtx \<le> nBestHeight g"
  shows "uint (open_for (status (updateStatus g wtx r)))
           = uint (nBestHeight g) - uint (nLockTime wtx)"
proof -
  have "open_for (status (updateStatus g wtx r)) = ucast (nBestHeight g - nLockTime wtx)"
    using assms(1,2) by (simp add: updateStatus_open_for)
  moreover have "uint (ucast (nBestHeight g - nLockTime wtx) :: int64)
                   = uint (nBestHeight g - nLockTime wtx)"
    by (simp add: uint_up_ucast is_up)
  moreover have "uint (nBestHeight g - nLockTime wtx)
                   = uint (nBestHeight g) - uint (nLockTime wtx)"
    using assms(3) by (simp add: uint_sub_if' word_le_def)
  ultimately show ?thesis by simp
qed

lemma updateStatus_scenario_100_90:
  "status' (status (updateStatus example_globals
                      (example_wtx\<lparr>IsFinal := False, nLockTime := 90\<rparr>) example_record))
     = OpenUntilBlock
   \<and> open_for (status (updateStatus example_globals
                         (example_wtx\<lparr>IsFinal := False, nLockTime := 90\<rparr>) example_record))
       = 10"
  by (simp add: updateStatus_status_ladder updateStatus_open_for example_wtx_def
      example_globals_def)

text \<open>
  Claim C8. The claim gives the ladder above, with \<^verbatim>\<open>openFor\<close> equal to the current
  height minus the lock value for a transaction that is not final and whose lock value
  is below the threshold. The code takes that difference in unsigned 32-bit arithmetic,
  so it is the claimed number only while the lock value does not exceed the height. At
  height 100 a transaction that is not final, with lock value 200, gets OpenUntilBlock
  and \<^verbatim>\<open>open_for\<close> = 4294967196, which is \<open>2 ^ 32 - 100\<close>, where the claim says
  100 - 200 = -100.
\<close>

theorem updateStatus_open_for_wraps:
  "\<not> IsFinal (example_wtx\<lparr>IsFinal := False, nLockTime := 200\<rparr>)
   \<and> nLockTime (example_wtx\<lparr>IsFinal := False, nLockTime := 200\<rparr>)
       < LOCKTIME_THRESHOLD example_globals
   \<and> sint (nBestHeight example_globals) = 100
   \<and> uint (nLockTime (example_wtx\<lparr>IsFinal := False, nLockTime := 200\<rparr>)) = 200
   \<and> status' (status (updateStatus example_globals
                        (example_wtx\<lparr>IsFinal := False, nLockTime := 200\<rparr>) example_record))
       = OpenUntilBlock
   \<and> open_for (status (updateStatus example_globals
                         (example_wtx\<lparr>IsFinal := False, nLockTime := 200\<rparr>) example_record))
       = 4294967196
   \<and> sint (open_for (status (updateStatus example_globals
                         (example_wtx\<lparr>IsFinal := False, nLockTime := 200\<rparr>) example_record)))
       \<noteq> 100 - 200"
  by (simp add: updateStatus_status_ladder updateStatus_open_for example_wtx_def
      example_globals_def)

text \<open>
  Claim C9. For a record of type Generated or StakeMint: when the wallet credit of the
  transaction is zero, the maturity is Immature, with the remaining maturity blocks
  stored, if the transaction is in the main chain (MaturesWarning instead when more than
  120 seconds have passed since it was received and its request count is zero), and
  NotAccepted if it is not in the main chain; when the credit is not zero the maturity
  is Mature.
\<close>

theorem updateStatus_maturity:
  assumes "type r = Generated \<or> type r = StakeMint"
  shows
    "maturity (status (updateStatus g wtx r)) =
       (if GetCredit wtx True = 0 then
          (if IsInMainChain wtx then
             (if GetAdjustedTime g - uint (nTimeReceived wtx) > 120 \<and> GetRequestCount wtx = 0
              then MaturesWarning else Immature)
           else NotAccepted)
        else Mature)
     \<and> (GetCredit wtx True = 0 \<and> IsInMainChain wtx \<longrightarrow>
          matures_in (status (updateStatus g wtx r)) = GetBlocksToMaturity wtx)"
  using assms by (simp add: updateStatus_def Let_def)

text \<open>
  The theorem at a Generated record of a transaction in the main chain with no credit
  yet and 30 blocks to go, received 1000 seconds ago: requested by a peer it is
  Immature, never requested it is MaturesWarning.
\<close>

theorem updateStatus_maturity_witness:
  "type (example_record\<lparr>type := Generated\<rparr>) = Generated
   \<and> GetCredit example_wtx True = 0
   \<and> maturity (status (updateStatus example_globals
          (example_wtx\<lparr>GetRequestCount := 1, IsInMainChain := True,
                        GetBlocksToMaturity := 30\<rparr>)
          (example_record\<lparr>type := Generated\<rparr>))) = Immature
   \<and> matures_in (status (updateStatus example_globals
          (example_wtx\<lparr>GetRequestCount := 1, IsInMainChain := True,
                        GetBlocksToMaturity := 30\<rparr>)
          (example_record\<lparr>type := Generated\<rparr>))) = 30
   \<and> maturity (status (updateStatus example_globals
          (example_wtx\<lparr>IsInMainChain := True, GetBlocksToMaturity := 30\<rparr>)
          (example_record\<lparr>type := Generated\<rparr>))) = MaturesWarning"
  using updateStatus_maturity
          [of "example_record\<lparr>type := Generated\<rparr>" example_globals
              "example_wtx\<lparr>GetRequestCount := 1, IsInMainChain := True,
                            GetBlocksToMaturity := 30\<rparr>"]
        updateStatus_maturity
          [of "example_record\<lparr>type := Generated\<rparr>" example_globals
              "example_wtx\<lparr>IsInMainChain := True, GetBlocksToMaturity := 30\<rparr>"]
  by (simp add: example_wtx_def example_globals_def example_record_def
      TransactionRecord6_def)

text \<open>
  Claim C10. \<^verbatim>\<open>updateStatus\<close> changes the status snapshot only: hash, index, time,
  type, counterparty address, debit and credit of the record are as before; and for a
  record whose type is neither Generated nor StakeMint the maturity field of the
  snapshot is not written, it keeps the value it had.
\<close>

theorem updateStatus_frame:
  "hash (updateStatus g wtx r) = hash r
   \<and> idx (updateStatus g wtx r) = idx r
   \<and> time (updateStatus g wtx r) = time r
   \<and> type (updateStatus g wtx r) = type r
   \<and> address (updateStatus g wtx r) = address r
   \<and> debit (updateStatus g wtx r) = debit r
   \<and> credit (updateStatus g wtx r) = credit r
   \<and> (type r \<noteq> Generated \<and> type r \<noteq> StakeMint \<longrightarrow>
        maturity (status (updateStatus g wtx r)) = maturity (status r))"
  by (simp add: updateStatus_def Let_def)

text \<open>
  The theorem at a SendToAddress record whose snapshot says Mature: it still says Mature
  afterwards, not NotApplicable.
\<close>

theorem updateStatus_frame_witness:
  "type (example_record\<lparr>status := example_status\<lparr>maturity := Mature\<rparr>\<rparr>) \<noteq> Generated
   \<and> type (example_record\<lparr>status := example_status\<lparr>maturity := Mature\<rparr>\<rparr>) \<noteq> StakeMint
   \<and> maturity (status (updateStatus example_globals example_wtx
          (example_record\<lparr>status := example_status\<lparr>maturity := Mature\<rparr>\<rparr>))) = Mature
   \<and> debit (updateStatus example_globals example_wtx
          (example_record\<lparr>status := example_status\<lparr>maturity := Mature\<rparr>\<rparr>)) = - 510"
  using updateStatus_frame
          [of example_globals example_wtx
              "example_record\<lparr>status := example_status\<lparr>maturity := Mature\<rparr>\<rparr>"]
  by (simp add: example_record_def TransactionRecord6_def example_status_def)

section \<open>The order of sort keys\<close>

subsection \<open>Decimal digits and zero padding\<close>

lemma of_char_digit_char: "d < 10 \<Longrightarrow> of_char (digit_char d) = 48 + d"
proof -
  assume "d < 10"
  then have "d = 0 \<or> d = 1 \<or> d = 2 \<or> d = 3 \<or> d = 4 \<or> d = 5
    \<or> d = 6 \<or> d = 7 \<or> d = 8 \<or> d = 9"
    by arith
  then show ?thesis
    by (elim disjE) (simp_all add: digit_char_def)
qed

lemma digit_char_mono: "d < e \<Longrightarrow> e < 10 \<Longrightarrow> digit_char d < digit_char e"
  by (simp add: less_char_def of_char_digit_char)

lemma digit_char_0: "digit_char 0 = CHR ''0''"
  by (simp add: digit_char_def)

text \<open>One step of padding, for evaluating a pad of literal width.\<close>

lemma zeros_numeral_unfold:
  "replicate (numeral k) CHR ''0'' = CHR ''0'' # replicate (pred_numeral k) CHR ''0''"
  by (simp add: numeral_eq_Suc)

lemma length_fixed_dec: "length (fixed_dec k n) = k"
  by (induction k arbitrary: n) simp_all

lemma fixed_dec_0: "fixed_dec k 0 = replicate k CHR ''0''"
  by (induction k) (simp_all add: digit_char_0 replicate_append_same)

lemma length_dec_le: "n < 10 ^ k \<Longrightarrow> 0 < k \<Longrightarrow> length (dec n) \<le> k"
proof (induction k arbitrary: n)
  case 0
  then show ?case by simp
next
  case (Suc k)
  show ?case
  proof (cases "n < 10")
    case True
    then show ?thesis by (simp add: dec.simps)
  next
    case False
    with Suc.prems have k: "0 < k" by (cases k) simp_all
    from Suc.prems have "n div 10 < 10 ^ k"
      by (simp add: less_mult_imp_div_less mult.commute)
    with Suc.IH k have "length (dec (n div 10)) \<le> k" by simp
    with False show ?thesis by (simp add: dec.simps [of n])
  qed
qed

text \<open>Padding with zeros to width \<open>k\<close> gives the \<open>k\<close> digits of a number below \<open>10 ^ k\<close>.\<close>

lemma zero_pad_dec: "n < 10 ^ k \<Longrightarrow> 0 < k \<Longrightarrow> zero_pad k (dec n) = fixed_dec k n"
proof (induction k arbitrary: n)
  case 0
  then show ?case by simp
next
  case (Suc k)
  show ?case
  proof (cases "n < 10")
    case True
    then show ?thesis
      by (simp add: dec.simps zero_pad_def fixed_dec_0)
  next
    case False
    with Suc.prems have k: "0 < k" by (cases k) simp_all
    from Suc.prems have lt: "n div 10 < 10 ^ k"
      by (simp add: less_mult_imp_div_less mult.commute)
    with Suc.IH k have ih: "zero_pad k (dec (n div 10)) = fixed_dec k (n div 10)" by simp
    from lt k have "length (dec (n div 10)) \<le> k" by (rule length_dec_le)
    then have "Suc k - Suc (length (dec (n div 10))) = k - length (dec (n div 10))" by simp
    with False ih show ?thesis
      by (simp add: dec.simps [of n] zero_pad_def)
  qed
qed

text \<open>On numbers of the same width the order of the strings is the order of the numbers.\<close>

lemma fixed_dec_mono: "n < m \<Longrightarrow> m < 10 ^ k \<Longrightarrow> fixed_dec k n < fixed_dec k m"
proof (induction k arbitrary: n m)
  case 0
  then show ?case by simp
next
  case (Suc k)
  from Suc.prems have m: "m div 10 < 10 ^ k"
    by (simp add: less_mult_imp_div_less mult.commute)
  from Suc.prems have le: "n div 10 \<le> m div 10" by (simp add: div_le_mono)
  show ?case
  proof (cases "n div 10 < m div 10")
    case True
    with Suc.IH m have "fixed_dec k (n div 10) < fixed_dec k (m div 10)" by simp
    then have "(fixed_dec k (n div 10), fixed_dec k (m div 10)) \<in> lexord {(u, v). u < v}"
      by (simp add: list_less_def)
    then have "(fixed_dec k (n div 10) @ [digit_char (n mod 10)],
                fixed_dec k (m div 10) @ [digit_char (m mod 10)]) \<in> lexord {(u, v). u < v}"
      by (rule lexord_sufI) (simp add: length_fixed_dec)
    then show ?thesis by (simp add: list_less_def)
  next
    case False
    with le have eq: "n div 10 = m div 10" by simp
    with Suc.prems have "n mod 10 < m mod 10"
      by (metis div_mult_mod_eq nat_add_left_cancel_less)
    then have "digit_char (n mod 10) < digit_char (m mod 10)"
      by (rule digit_char_mono) simp
    then have "([digit_char (n mod 10)], [digit_char (m mod 10)]) \<in> lexord {(u, v). u < v}"
      by simp
    then have "(fixed_dec k (m div 10) @ [digit_char (n mod 10)],
                fixed_dec k (m div 10) @ [digit_char (m mod 10)]) \<in> lexord {(u, v). u < v}"
      by (simp add: lexord_append_leftI)
    with eq show ?thesis by (simp add: list_less_def)
  qed
qed

lemma less_append_same_length:
  "xs < ys \<Longrightarrow> length xs = length ys \<Longrightarrow> xs @ us < ys @ (vs :: string)"
  by (simp add: list_less_def lexord_sufI)

subsection \<open>The height field decides\<close>

lemma fmt_d_INT_MAX: "fmt_d 10 2147483647 = ''2147483647''"
  by (simp add: fmt_d_def zero_pad_def dec.simps digit_char_def)

text \<open>
  Any \<^verbatim>\<open>int\<close> below the largest one prints, with \<^verbatim>\<open>%010d\<close>, to a string that
  sorts before the largest one's, whatever follows either: a negative number starts with
  the sign, which sorts before every digit, and the others have ten digits.
\<close>

lemma fmt_d_below_INT_MAX:
  assumes "i < 2147483647"
  shows "fmt_d 10 i @ us < fmt_d 10 2147483647 @ vs"
proof (cases "i < 0")
  case True
  then show ?thesis
    by (simp add: fmt_d_INT_MAX) (simp add: fmt_d_def)
next
  case False
  with assms have lt: "nat i < 2147483647" by simp
  then have b: "nat i < 10 ^ 10" by simp
  have "fixed_dec 10 (nat i) < fixed_dec 10 2147483647"
    using lt by (rule fixed_dec_mono) simp
  moreover have "zero_pad 10 (dec (nat i)) = fixed_dec 10 (nat i)"
    using b by (rule zero_pad_dec) simp
  moreover have "zero_pad 10 (dec 2147483647) = fixed_dec 10 2147483647"
    by (rule zero_pad_dec) simp_all
  ultimately have "fmt_d 10 i < fmt_d 10 2147483647"
    using False by (simp add: fmt_d_def)
  moreover have "length (fmt_d 10 i) = length (fmt_d 10 2147483647)"
    using False b by (simp add: fmt_d_def zero_pad_dec length_fixed_dec)
  ultimately show ?thesis by (rule less_append_same_length)
qed

lemma sint_below_INT_MAX: "h \<noteq> INT_MAX \<Longrightarrow> sint h < 2147483647"
proof -
  assume ne: "h \<noteq> INT_MAX"
  have "sint h < 2 ^ 31" using sint_lt [of h] by simp
  moreover have "sint h \<noteq> 2147483647"
  proof
    assume "sint h = 2147483647"
    then have "word_of_int (sint h) = (word_of_int 2147483647 :: 32 word)" by simp
    then have "h = 2147483647" by simp
    with ne show False by (simp add: INT_MAX_def)
  qed
  ultimately show ?thesis by simp
qed

lemma sint_INT_MAX: "sint INT_MAX = 2147483647"
  by (simp add: INT_MAX_def)

lemma sortKey_updateStatus:
  "sortKey (status (updateStatus g wtx r)) =
     strprintf_sortKey
       (case find_pindex g wtx of Some b \<Rightarrow> nHeight b | None \<Rightarrow> INT_MAX)
       (if IsCoinBase wtx then 1 else 0) (nTimeReceived wtx) (idx r)"
  by (simp add: updateStatus_def Let_def)

subsection \<open>Claim C1\<close>

text \<open>
  Claim C1, as amended. Take a transaction with no block found in the block index, so
  that the sentinel \<^verbatim>\<open>std::numeric_limits<int>::max()\<close> is printed, and one with a block
  found, at any height other than that sentinel. Then the sort key of the first is
  lexicographically greater than the sort key of the second (the one of the second is
  less than the one of the first), whatever their receive times, coinbase flags and
  record indices.
\<close>

theorem sortKey_confirmed_less_unconfirmed:
  assumes "find_pindex g wtx1 = None"
    and "find_pindex g wtx2 = Some b"
    and "nHeight b \<noteq> INT_MAX"
  shows "sortKey (status (updateStatus g wtx2 r2)) < sortKey (status (updateStatus g wtx1 r1))"
proof -
  from assms(3) have "sint (nHeight b) < 2147483647"
    by (rule sint_below_INT_MAX)
  then show ?thesis
    using assms(1,2)
    by (simp add: sortKey_updateStatus strprintf_sortKey_def sint_INT_MAX
        fmt_d_below_INT_MAX)
qed

text \<open>
  The theorem at a transaction whose block is at height 100 and one whose block hash is
  not in the index, both received at time 0.
\<close>

theorem sortKey_confirmed_less_unconfirmed_witness:
  "find_pindex example_globals example_wtx = None
   \<and> find_pindex example_globals (example_wtx\<lparr>hashBlock := 7\<rparr>) = Some \<lparr>nHeight = 100\<rparr>
   \<and> nHeight \<lparr>nHeight = 100\<rparr> \<noteq> INT_MAX
   \<and> sortKey (status (updateStatus example_globals (example_wtx\<lparr>hashBlock := 7\<rparr>)
                        example_record))
       < sortKey (status (updateStatus example_globals example_wtx example_record))"
  using sortKey_confirmed_less_unconfirmed
          [of example_globals example_wtx "example_wtx\<lparr>hashBlock := 7\<rparr>"
              "\<lparr>nHeight = 100\<rparr>" example_record example_record]
  by (simp add: find_pindex_def example_globals_def example_wtx_def INT_MAX_def)

text \<open>
  Claim C1 as stated fails: the key of the transaction without a block starts with
  2147483647 and the key of the one at height 100 with 0000000100, so the first is not
  less than the second.
\<close>

theorem sortKey_unconfirmed_not_less:
  "find_pindex example_globals example_wtx = None
   \<and> find_pindex example_globals (example_wtx\<lparr>hashBlock := 7\<rparr>) = Some \<lparr>nHeight = 100\<rparr>
   \<and> sortKey (status (updateStatus example_globals example_wtx example_record))
       = ''2147483647-0-0000000000-000''
   \<and> sortKey (status (updateStatus example_globals (example_wtx\<lparr>hashBlock := 7\<rparr>)
                        example_record))
       = ''0000000100-0-0000000000-000''
   \<and> \<not> sortKey (status (updateStatus example_globals example_wtx example_record))
         < sortKey (status (updateStatus example_globals (example_wtx\<lparr>hashBlock := 7\<rparr>)
                              example_record))"
  by (simp add: sortKey_updateStatus find_pindex_def example_globals_def example_wtx_def
      example_record_def TransactionRecord6_def strprintf_sortKey_def INT_MAX_def
      fmt_d_def fmt_u_def zero_pad_def dec.simps digit_char_def zeros_numeral_unfold)

end
